theory Spec2Isabelle
  imports Complex_Main "HOL-Library.Word" "HOL-Library.Sublist"
begin

section \<open>The Atleta resource controller of workout_api\<close>

text \<open>
  A shallow embedding of \<^verbatim>\<open>workout_api/atleta/controller.py\<close>: the five request
  handlers \<^verbatim>\<open>post\<close>, \<^verbatim>\<open>query\<close>, \<^verbatim>\<open>get\<close>, \<^verbatim>\<open>patch\<close> and \<^verbatim>\<open>delete\<close>.
  Each handler is a function of the database session it is handed and returns the
  outcome of the request together with the session as the handler leaves it.
  Exceptions are values: an \<^verbatim>\<open>HTTPException\<close> the handler raises, or a database
  exception it lets through.
\<close>

subsection \<open>Transfer schemas and persistence models\<close>

text \<open>
  Strings are lists of characters; a character stands for a code point below 256, which
  covers the accented letters of the handler's messages. A UUID is its 128-bit value, a
  timestamp the number of microseconds since the epoch. Weight and height are
  floating-point numbers in the source; the controller only stores and returns them, so
  they are idealised as reals.
\<close>

type_synonym uuid = "128 word"
type_synonym datetime = int

text \<open>
  Modelled from the spec: \<^verbatim>\<open>atleta/schemas.py\<close> is missing. The input representation
  carries name, CPF, weight, height, sex, and the names of a category and of a
  training centre (the handler reads \<^verbatim>\<open>atleta_in.categoria.nome\<close>,
  \<^verbatim>\<open>atleta_in.centro_treinamento.nome\<close> and \<^verbatim>\<open>atleta_in.cpf\<close>).
\<close>

record categoria_in =
  nome :: string

record centro_treinamento_atleta =
  nome :: string

record atleta_in =
  nome :: string
  cpf :: string
  peso :: real
  altura :: real
  sexo :: string
  categoria :: categoria_in
  centro_treinamento :: centro_treinamento_atleta

text \<open>
  \<^verbatim>\<open>AtletaOut(id=uuid4(), created_at=datetime.utcnow(), **atleta_in.model_dump())\<close>:
  the output representation is the input representation extended by the identifier and
  the creation timestamp.
\<close>

record atleta_out = atleta_in +
  id' :: uuid
  created_at :: datetime

text \<open>
  Modelled from the spec: the model modules are missing. A category and a training
  centre are looked up by name and carry the internal key \<^verbatim>\<open>pk_id\<close>. An athlete row
  has the columns of the output representation without the two nested references, and
  the two foreign keys the handler sets. The data columns are nullable in the model: a
  partial update may assign \<^verbatim>\<open>None\<close> to an attribute, and whether the database then
  rejects the row is a matter of the missing column declarations (see \<open>commit\<close>).
\<close>

record categoria_model =
  pk_id :: nat
  nome :: string

record centro_treinamento_model =
  pk_id :: nat
  nome :: string

record atleta_model =
  id' :: uuid
  created_at :: datetime
  nome :: "string option"
  cpf :: "string option"
  peso :: "real option"
  altura :: "real option"
  sexo :: "string option"
  categoria_id :: nat
  centro_treinamento_id :: nat


datatype item =
    Item_nome "string option"
  | Item_cpf "string option"
  | Item_peso "real option"
  | Item_altura "real option"
  | Item_sexo "string option"


subsection \<open>The database session\<close>

text \<open>
  The session is an external collaborator (SQLAlchemy). Its model keeps what the
  handlers can observe: the tables as committed (\<open>stored\<close>) and the tables as the
  running transaction sees them (\<open>working\<close>). A table is the list of its rows in scan
  order; an ORM object is addressed by the position of its row.
\<close>

record database =
  atletas :: "atleta_model list"
  categorias :: "categoria_model list"
  centros_treinamento :: "centro_treinamento_model list"

record db_session =
  stored :: database
  working :: database

datatype db_constraint = Unique_cpf | Other_constraint string

text \<open>
  An exception of the persistence step: \<^verbatim>\<open>sqlalchemy.exc.IntegrityError\<close> for the
  constraint it reports, or any other exception, with the text \<^verbatim>\<open>str(e)\<close>.
\<close>

datatype exn = IntegrityError db_constraint | OtherException string

text \<open>
  \<^verbatim>\<open>(await db_session.execute(select(M).filter_by(...))).scalars().first()\<close>:
  the first row of the table that the filter selects, with its position, or
  \<^verbatim>\<open>None\<close>.
\<close>

fun select_first :: "('a \<Rightarrow> bool) \<Rightarrow> 'a list \<Rightarrow> (nat \<times> 'a) option" where
  "select_first P [] = None"
| "select_first P (x # xs) =
     (if P x then Some (0, x) else map_option (\<lambda>(i, y). (Suc i, y)) (select_first P xs))"

text \<open>
  Modelled from the spec: CPF is unique across all athlete records. As in SQL, rows
  whose CPF is null do not conflict with each other.
\<close>

definition cpf_unique :: "atleta_model list \<Rightarrow> bool" where
  "cpf_unique rows = distinct (List.map_filter atleta_model.cpf rows)"

text \<open>\<^verbatim>\<open>db_session.add(atleta_model)\<close>: the row is pending in the transaction.\<close>

definition add :: "atleta_model \<Rightarrow> db_session \<Rightarrow> db_session" where
  "add row s = s\<lparr>working := (working s)\<lparr>atletas := atletas (working s) @ [row]\<rparr>\<rparr>"

text \<open>
  \<^verbatim>\<open>await db_session.commit()\<close>. The step fails with the exception \<open>fault\<close> when the
  environment supplies one (a constraint declared in the missing model modules, a lost
  connection); otherwise the database checks the CPF-uniqueness invariant and either
  raises \<^verbatim>\<open>IntegrityError\<close> or makes the transaction's tables the committed ones.
  A failed commit leaves the session as it was, pending changes included.
\<close>

definition commit :: "exn option \<Rightarrow> db_session \<Rightarrow> exn + db_session" where
  "commit fault s =
     (case fault of
        Some e \<Rightarrow> Inl e
      | None \<Rightarrow>
          if cpf_unique (atletas (working s)) then Inr (s\<lparr>stored := working s\<rparr>)
          else Inl (IntegrityError Unique_cpf))"

text \<open>\<^verbatim>\<open>await db_session.rollback()\<close>: the pending changes are discarded.\<close>

definition rollback :: "db_session \<Rightarrow> db_session" where
  "rollback s = s\<lparr>working := stored s\<rparr>"

text \<open>
  \<^verbatim>\<open>await db_session.refresh(atleta)\<close>: the object at position \<open>i\<close> is read back
  from the table; the session raises when its row is gone.
\<close>

definition refresh :: "nat \<Rightarrow> db_session \<Rightarrow> exn + atleta_model" where
  "refresh i s =
     (let rows = atletas (working s)
      in if i < length rows then Inr (rows ! i) else Inl (OtherException ''InvalidRequestError''))"

subsection \<open>Responses\<close>

abbreviation HTTP_200_OK :: nat where "HTTP_200_OK \<equiv> 200"
abbreviation HTTP_201_CREATED :: nat where "HTTP_201_CREATED \<equiv> 201"
abbreviation HTTP_204_NO_CONTENT :: nat where "HTTP_204_NO_CONTENT \<equiv> 204"
abbreviation HTTP_400_BAD_REQUEST :: nat where "HTTP_400_BAD_REQUEST \<equiv> 400"
abbreviation HTTP_404_NOT_FOUND :: nat where "HTTP_404_NOT_FOUND \<equiv> 404"
abbreviation HTTP_409_CONFLICT :: nat where "HTTP_409_CONFLICT \<equiv> 409"
abbreviation HTTP_500_INTERNAL_SERVER_ERROR :: nat where "HTTP_500_INTERNAL_SERVER_ERROR \<equiv> 500"

text \<open>
  The outcome of a handler: it returns a value, which the route sends with its
  \<^verbatim>\<open>status_code\<close>; it raises \<^verbatim>\<open>HTTPException(status_code, detail)\<close>; or an
  exception of the database escapes it.
\<close>

datatype 'a outcome =
    Response nat 'a
  | HTTPException nat string
  | Unhandled exn

subsection \<open>Formatting\<close>

text \<open>
  \<^verbatim>\<open>str(id)\<close> of a UUID, as the f-strings of the handlers format it: 32 lower-case
  hexadecimal digits in groups of 8, 4, 4, 4 and 12.
\<close>

definition hex_digit :: "nat \<Rightarrow> char" where
  "hex_digit n = ''0123456789abcdef'' ! (n mod 16)"

definition hex32 :: "uuid \<Rightarrow> string" where
  "hex32 u = map (\<lambda>i. hex_digit (unat (drop_bit (4 * (31 - i)) u))) [0..<32]"

definition str_uuid :: "uuid \<Rightarrow> string" where
  "str_uuid u =
     (let h = hex32 u
      in take 8 h @ ''-'' @ take 4 (drop 8 h) @ ''-'' @ take 4 (drop 12 h) @ ''-'' @
         take 4 (drop 16 h) @ ''-'' @ drop 20 h)"

definition categoria_nao_encontrada :: "string \<Rightarrow> string" where
  "categoria_nao_encontrada categoria_nome =
     ''A categoria '' @ categoria_nome @ '' n'' @ [CHR 0xE3] @ ''o foi encontrada.''"

definition centro_nao_encontrado :: "string \<Rightarrow> string" where
  "centro_nao_encontrado centro_treinamento_nome =
     ''O centro de treinamento '' @ centro_treinamento_nome @
     '' n'' @ [CHR 0xE3] @ ''o foi encontrado.''"

definition cpf_ja_cadastrado :: "string \<Rightarrow> string" where
  "cpf_ja_cadastrado c = ''J'' @ [CHR 0xE1] @ '' existe um atleta cadastrado com o cpf: '' @ c"

definition erro_ao_inserir :: "string \<Rightarrow> string" where
  "erro_ao_inserir e = ''Ocorreu um erro ao inserir os dados no banco: '' @ e"

definition atleta_nao_encontrado :: "uuid \<Rightarrow> string" where
  "atleta_nao_encontrado uid =
     ''Atleta n'' @ [CHR 0xE3] @ ''o encontrado no id: '' @ str_uuid uid"

subsection \<open>POST /\<close>

text \<open>
  \<^verbatim>\<open>AtletaModel(**atleta_out.model_dump(exclude={'categoria', 'centro_treinamento'}))\<close>
  followed by the assignments of \<^verbatim>\<open>categoria_id\<close> and
  \<^verbatim>\<open>centro_treinamento_id\<close>.
\<close>

definition new_atleta_model ::
  "atleta_out \<Rightarrow> categoria_model \<Rightarrow> centro_treinamento_model \<Rightarrow> atleta_model"
where
  "new_atleta_model atleta_out categoria_obj centro_treinamento_obj =
     \<lparr>atleta_model.id' = atleta_out.id' atleta_out,
      atleta_model.created_at = atleta_out.created_at atleta_out,
      atleta_model.nome = Some (atleta_in.nome atleta_out),
      atleta_model.cpf = Some (atleta_in.cpf atleta_out),
      atleta_model.peso = Some (atleta_in.peso atleta_out),
      atleta_model.altura = Some (atleta_in.altura atleta_out),
      atleta_model.sexo = Some (atleta_in.sexo atleta_out),
      atleta_model.categoria_id = categoria_model.pk_id categoria_obj,
      atleta_model.centro_treinamento_id =
        centro_treinamento_model.pk_id centro_treinamento_obj\<rparr>"

text \<open>
  \<open>uuid4\<close> and \<open>utcnow\<close> are the values \<^verbatim>\<open>uuid4()\<close> and
  \<^verbatim>\<open>datetime.utcnow()\<close> return during the request, \<open>fault\<close> is the exception the
  environment makes the commit raise, if any.
\<close>

definition post ::
  "uuid \<Rightarrow> datetime \<Rightarrow> exn option \<Rightarrow> atleta_in \<Rightarrow> db_session \<Rightarrow> atleta_out outcome \<times> db_session"
where
  "post uuid4 utcnow fault atleta_in db_session =
     (let categoria_nome = categoria_in.nome (atleta_in.categoria atleta_in);
          centro_treinamento_nome =
            centro_treinamento_atleta.nome (atleta_in.centro_treinamento atleta_in)
      in case select_first (\<lambda>c. categoria_model.nome c = categoria_nome)
                (categorias (working db_session)) of
           None \<Rightarrow>
             (HTTPException HTTP_400_BAD_REQUEST (categoria_nao_encontrada categoria_nome),
              db_session)
         | Some (_, categoria_obj) \<Rightarrow>
            (case select_first (\<lambda>c. centro_treinamento_model.nome c = centro_treinamento_nome)
                    (centros_treinamento (working db_session)) of
               None \<Rightarrow>
                 (HTTPException HTTP_400_BAD_REQUEST
                    (centro_nao_encontrado centro_treinamento_nome),
                  db_session)
             | Some (_, centro_treinamento_obj) \<Rightarrow>
                 (let atleta_out =
                        atleta_in.extend atleta_in
                          \<lparr>atleta_out.id' = uuid4, atleta_out.created_at = utcnow\<rparr>;
                      atleta_model =
                        new_atleta_model atleta_out categoria_obj centro_treinamento_obj;
                      db_session = add atleta_model db_session
                  in case commit fault db_session of
                       Inr committed \<Rightarrow> (Response HTTP_201_CREATED atleta_out, committed)
                     | Inl (IntegrityError _) \<Rightarrow>
                         (HTTPException HTTP_409_CONFLICT
                            (cpf_ja_cadastrado (atleta_in.cpf atleta_in)),
                          rollback db_session)
                     | Inl (OtherException e) \<Rightarrow>
                         (HTTPException HTTP_500_INTERNAL_SERVER_ERROR (erro_ao_inserir e),
                          rollback db_session))))"

subsection \<open>GET /\<close>

text \<open>
  \<^verbatim>\<open>column.ilike(pattern)\<close>: SQL \<^verbatim>\<open>LIKE\<close> on the lower-cased operands. In a
  pattern \<^verbatim>\<open>%\<close> matches any sequence of characters and \<^verbatim>\<open>_\<close> any one character.
  Lower-casing covers the ASCII letters; the escape character some databases give
  \<^verbatim>\<open>LIKE\<close> by default is not modelled.
\<close>

definition lower_char :: "char \<Rightarrow> char" where
  "lower_char c =
     (let n = (of_char c :: nat) in if 65 \<le> n \<and> n \<le> 90 then char_of (n + 32) else c)"

definition lower :: "string \<Rightarrow> string" where
  "lower s = map lower_char s"

fun like :: "string \<Rightarrow> string \<Rightarrow> bool" where
  "like [] s = (s = [])"
| "like (p # ps) [] = (p = CHR ''%'' \<and> like ps [])"
| "like (p # ps) (c # cs) =
     (if p = CHR ''%'' then like ps (c # cs) \<or> like (p # ps) cs
      else (p = CHR ''_'' \<or> p = c) \<and> like ps cs)"

text \<open>A comparison with a null column is not true, so the row is not selected.\<close>

definition ilike :: "string option \<Rightarrow> string \<Rightarrow> bool" where
  "ilike column pattern =
     (case column of None \<Rightarrow> False | Some v \<Rightarrow> like (lower pattern) (lower v))"

text \<open>
  \<^verbatim>\<open>fastapi_pagination.paginate(sequence)\<close> with limit/offset parameters, an external
  library: the window \<^verbatim>\<open>sequence[offset:offset + limit]\<close> with the length of the
  whole sequence and the parameters.
\<close>

record params =
  limit :: nat
  offset :: nat

record 'a page =
  items :: "'a list"
  total :: nat
  limit :: nat
  offset :: nat

definition paginate :: "params \<Rightarrow> 'a list \<Rightarrow> 'a page" where
  "paginate p sequence =
     \<lparr>page.items = take (params.limit p) (drop (params.offset p) sequence),
      page.total = length sequence,
      page.limit = params.limit p,
      page.offset = params.offset p\<rparr>"

text \<open>
  The statement the handler builds, as the predicate that selects its rows.
  \<^verbatim>\<open>if nome:\<close> and \<^verbatim>\<open>if cpf:\<close> test truthiness: neither \<^verbatim>\<open>None\<close> nor the empty
  string adds a filter. The query parameters \<^verbatim>\<open>nome\<close> and \<^verbatim>\<open>cpf\<close> are
  \<open>nome_filter\<close> and \<open>cpf_filter\<close> here.
\<close>

definition query_stmt :: "string option \<Rightarrow> string option \<Rightarrow> atleta_model \<Rightarrow> bool" where
  "query_stmt nome_filter cpf_filter =
     (let stmt = (\<lambda>a. True);
          stmt = (case nome_filter of
                    None \<Rightarrow> stmt
                  | Some n \<Rightarrow>
                      if n \<noteq> [] then (\<lambda>a. stmt a \<and> ilike (atleta_model.nome a) (''%'' @ n @ ''%''))
                      else stmt);
          stmt = (case cpf_filter of
                    None \<Rightarrow> stmt
                  | Some c \<Rightarrow>
                      if c \<noteq> [] then (\<lambda>a. stmt a \<and> atleta_model.cpf a = Some c) else stmt)
      in stmt)"

text \<open>
  \<open>model_validate\<close> stands for \<^verbatim>\<open>AtletaResumoOut.model_validate\<close>, whose schema is
  missing; \<open>params\<close> are the pagination parameters of the request.
\<close>

definition query ::
  "(atleta_model \<Rightarrow> 'r) \<Rightarrow> params \<Rightarrow> string option \<Rightarrow> string option \<Rightarrow> db_session \<Rightarrow> 'r page"
where
  "query model_validate params nome_filter cpf_filter db_session =
     (let rows = filter (query_stmt nome_filter cpf_filter) (atletas (working db_session));
          atletas_resumo = map model_validate rows
      in paginate params atletas_resumo)"

subsection \<open>GET /{id}\<close>

definition get :: "uuid \<Rightarrow> db_session \<Rightarrow> atleta_model outcome \<times> db_session" where
  "get uid db_session =
     (case select_first (\<lambda>a. atleta_model.id' a = uid) (atletas (working db_session)) of
        None \<Rightarrow> (HTTPException HTTP_404_NOT_FOUND (atleta_nao_encontrado uid), db_session)
      | Some (_, atleta) \<Rightarrow> (Response HTTP_200_OK atleta, db_session))"

subsection \<open>PATCH /{id}\<close>

text \<open>\<^verbatim>\<open>setattr(atleta, key, value)\<close> for one item of the dumped update.\<close>

fun setattr :: "atleta_model \<Rightarrow> item \<Rightarrow> atleta_model" where
  "setattr atleta (Item_nome v) = atleta\<lparr>atleta_model.nome := v\<rparr>"
| "setattr atleta (Item_cpf v) = atleta\<lparr>atleta_model.cpf := v\<rparr>"
| "setattr atleta (Item_peso v) = atleta\<lparr>atleta_model.peso := v\<rparr>"
| "setattr atleta (Item_altura v) = atleta\<lparr>atleta_model.altura := v\<rparr>"
| "setattr atleta (Item_sexo v) = atleta\<lparr>atleta_model.sexo := v\<rparr>"

text \<open>
  \<open>atleta_update\<close> is \<^verbatim>\<open>atleta_up.model_dump(exclude_unset=True).items()\<close>. The
  handler has no \<^verbatim>\<open>try\<close>: an exception of the commit escapes it. After the commit,
  \<^verbatim>\<open>refresh\<close> reads the row back from the database.
\<close>

definition patch ::
  "exn option \<Rightarrow> uuid \<Rightarrow> item list \<Rightarrow> db_session \<Rightarrow> atleta_model outcome \<times> db_session"
where
  "patch fault uid atleta_update db_session =
     (let rows = atletas (working db_session)
      in case select_first (\<lambda>a. atleta_model.id' a = uid) rows of
           None \<Rightarrow> (HTTPException HTTP_404_NOT_FOUND (atleta_nao_encontrado uid), db_session)
         | Some (i, atleta) \<Rightarrow>
             (let atleta = foldl setattr atleta atleta_update;
                  db_session =
                    db_session\<lparr>working := (working db_session)\<lparr>atletas := rows[i := atleta]\<rparr>\<rparr>
              in case commit fault db_session of
                   Inl e \<Rightarrow> (Unhandled e, db_session)
                 | Inr committed \<Rightarrow>
                     (case refresh i committed of
                        Inl e \<Rightarrow> (Unhandled e, committed)
                      | Inr refreshed \<Rightarrow> (Response HTTP_200_OK refreshed, committed))))"

subsection \<open>DELETE /{id}\<close>

definition delete :: "exn option \<Rightarrow> uuid \<Rightarrow> db_session \<Rightarrow> unit outcome \<times> db_session" where
  "delete fault uid db_session =
     (let rows = atletas (working db_session)
      in case select_first (\<lambda>a. atleta_model.id' a = uid) rows of
           None \<Rightarrow> (HTTPException HTTP_404_NOT_FOUND (atleta_nao_encontrado uid), db_session)
         | Some (i, atleta) \<Rightarrow>
             (let db_session =
                    db_session\<lparr>working :=
                      (working db_session)\<lparr>atletas := take i rows @ drop (Suc i) rows\<rparr>\<rparr>
              in case commit fault db_session of
                   Inl e \<Rightarrow> (Unhandled e, db_session)
                 | Inr committed \<Rightarrow> (Response HTTP_204_NO_CONTENT (), committed)))"

subsection \<open>Spec-side vocabulary\<close>




subsection \<open>Example data\<close>

definition ex_categoria :: categoria_model where
  "ex_categoria = \<lparr>categoria_model.pk_id = 3, categoria_model.nome = ''Scale''\<rparr>"

definition ex_centro :: centro_treinamento_model where
  "ex_centro = \<lparr>centro_treinamento_model.pk_id = 5, centro_treinamento_model.nome = ''CT King''\<rparr>"

definition ex_input :: "string \<Rightarrow> string \<Rightarrow> string \<Rightarrow> string \<Rightarrow> atleta_in" where
  "ex_input n c cat ct =
     \<lparr>atleta_in.nome = n, atleta_in.cpf = c, atleta_in.peso = 75.5, atleta_in.altura = 1.7,
      atleta_in.sexo = ''F'',
      atleta_in.categoria = \<lparr>categoria_in.nome = cat\<rparr>,
      atleta_in.centro_treinamento = \<lparr>centro_treinamento_atleta.nome = ct\<rparr>\<rparr>"

definition ex_row :: "uuid \<Rightarrow> string \<Rightarrow> string \<Rightarrow> atleta_model" where
  "ex_row u n c =
     \<lparr>atleta_model.id' = u, atleta_model.created_at = 1000,
      atleta_model.nome = Some n, atleta_model.cpf = Some c,
      atleta_model.peso = Some 75.5, atleta_model.altura = Some 1.7,
      atleta_model.sexo = Some ''F'',
      atleta_model.categoria_id = 3, atleta_model.centro_treinamento_id = 5\<rparr>"

definition ex_database :: "atleta_model list \<Rightarrow> database" where
  "ex_database rows =
     \<lparr>atletas = rows, categorias = [ex_categoria], centros_treinamento = [ex_centro]\<rparr>"

definition ex_session :: "atleta_model list \<Rightarrow> db_session" where
  "ex_session rows = \<lparr>stored = ex_database rows, working = ex_database rows\<rparr>"

definition ex_params :: params where
  "ex_params = \<lparr>params.limit = 50, params.offset = 0\<rparr>"

section \<open>Properties\<close>

subsection \<open>Auxiliary facts\<close>

lemmas ex_defs = ex_categoria_def ex_centro_def ex_input_def ex_row_def ex_database_def
  ex_session_def ex_params_def

lemma select_first_None: "select_first P xs = None \<longleftrightarrow> (\<forall>x\<in>set xs. \<not> P x)"
  by (induction xs) auto

lemma select_first_Some:
  "select_first P xs = Some (i, x) \<Longrightarrow> i < length xs \<and> xs ! i = x \<and> P x"
proof (induction xs arbitrary: i)
  case Nil
  then show ?case by simp
next
  case (Cons y ys)
  show ?case
  proof (cases "P y")
    case True
    with Cons.prems show ?thesis by simp
  next
    case False
    with Cons.prems obtain j where j: "select_first P ys = Some (j, x)" and i: "i = Suc j"
      by auto
    from Cons.IH [OF j] i show ?thesis by simp
  qed
qed

lemma select_first_exists:
  "\<exists>x\<in>set xs. P x \<Longrightarrow> \<exists>i x. select_first P xs = Some (i, x)"
  using select_first_None [of P xs] by (cases "select_first P xs") auto

lemma post_no_categoria:
  assumes "select_first (\<lambda>c. categoria_model.nome c = categoria_in.nome (atleta_in.categoria a))
      (categorias (working s)) = None"
  shows "post u t f a s =
        (HTTPException 400 (categoria_nao_encontrada (categoria_in.nome (atleta_in.categoria a))), s)"
  unfolding post_def Let_def using assms by simp

lemma post_no_centro:
  assumes "select_first (\<lambda>c. categoria_model.nome c = categoria_in.nome (atleta_in.categoria a))
      (categorias (working s)) = Some (i, c)"
    and "select_first (\<lambda>c. centro_treinamento_model.nome c =
            centro_treinamento_atleta.nome (atleta_in.centro_treinamento a))
      (centros_treinamento (working s)) = None"
  shows "post u t f a s =
        (HTTPException 400
           (centro_nao_encontrado (centro_treinamento_atleta.nome (atleta_in.centro_treinamento a))),
         s)"
  unfolding post_def Let_def using assms by simp

lemma post_resolved:
  assumes "select_first (\<lambda>c. categoria_model.nome c = categoria_in.nome (atleta_in.categoria a))
      (categorias (working s)) = Some (i, c)"
    and "select_first (\<lambda>c. centro_treinamento_model.nome c =
            centro_treinamento_atleta.nome (atleta_in.centro_treinamento a))
      (centros_treinamento (working s)) = Some (j, ct)"
  shows "post u t f a s =
     (case commit f (add (new_atleta_model (atleta_in.extend a
                \<lparr>atleta_out.id' = u, atleta_out.created_at = t\<rparr>) c ct) s) of
        Inr committed \<Rightarrow>
          (Response 201 (atleta_in.extend a \<lparr>atleta_out.id' = u, atleta_out.created_at = t\<rparr>),
           committed)
      | Inl (IntegrityError _) \<Rightarrow>
          (HTTPException 409 (cpf_ja_cadastrado (atleta_in.cpf a)),
           rollback (add (new_atleta_model (atleta_in.extend a
                \<lparr>atleta_out.id' = u, atleta_out.created_at = t\<rparr>) c ct) s))
      | Inl (OtherException e) \<Rightarrow>
          (HTTPException 500 (erro_ao_inserir e),
           rollback (add (new_atleta_model (atleta_in.extend a
                \<lparr>atleta_out.id' = u, atleta_out.created_at = t\<rparr>) c ct) s)))"
  unfolding post_def Let_def using assms by simp

lemma commit_Inr:
  "commit f s = Inr s' \<Longrightarrow> f = None \<and> cpf_unique (atletas (working s)) \<and> s' = s\<lparr>stored := working s\<rparr>"
  by (auto simp: commit_def split: option.splits if_splits)

lemma rollback_add: "rollback (add row s) = s\<lparr>working := stored s\<rparr>"
  by (simp add: rollback_def add_def)

lemma post_commit_fails:
  assumes cat: "select_first (\<lambda>c. categoria_model.nome c = categoria_in.nome (atleta_in.categoria a))
      (categorias (working s)) = Some (i, c)"
    and ct: "select_first (\<lambda>c. centro_treinamento_model.nome c =
            centro_treinamento_atleta.nome (atleta_in.centro_treinamento a))
      (centros_treinamento (working s)) = Some (j, ct)"
    and bad: "commit f (add (new_atleta_model
        (atleta_in.extend a \<lparr>atleta_out.id' = u, atleta_out.created_at = t\<rparr>) c ct) s) = Inl e"
  shows "post u t f a s =
     ((case e of
         IntegrityError k \<Rightarrow> HTTPException 409 (cpf_ja_cadastrado (atleta_in.cpf a))
       | OtherException m \<Rightarrow> HTTPException 500 (erro_ao_inserir m)),
      s\<lparr>working := stored s\<rparr>)"
  using post_resolved [OF cat ct, of u t f] bad
  by (cases e) (simp_all add: rollback_add)

lemma commit_not_unique:
  "\<not> cpf_unique (atletas (working s)) \<Longrightarrow>
     commit f s = Inl (case f of None \<Rightarrow> IntegrityError Unique_cpf | Some e \<Rightarrow> e)"
  by (simp add: commit_def split: option.splits)

lemma post_Response_inv:
  assumes "post u t f a s = (Response code out, s1)"
  shows "\<exists>i c j ct.
     select_first (\<lambda>c. categoria_model.nome c = categoria_in.nome (atleta_in.categoria a))
       (categorias (working s)) = Some (i, c) \<and>
     select_first (\<lambda>c. centro_treinamento_model.nome c =
            centro_treinamento_atleta.nome (atleta_in.centro_treinamento a))
       (centros_treinamento (working s)) = Some (j, ct) \<and>
     commit f (add (new_atleta_model
        (atleta_in.extend a \<lparr>atleta_out.id' = u, atleta_out.created_at = t\<rparr>) c ct) s) = Inr s1"
proof (cases "select_first (\<lambda>c. categoria_model.nome c = categoria_in.nome (atleta_in.categoria a))
       (categorias (working s))")
  case None
  from post_no_categoria [OF None, of u t f] assms show ?thesis by simp
next
  case (Some ic)
  obtain i c where ic: "ic = (i, c)" by (cases ic)
  note cat = Some [unfolded ic]
  show ?thesis
  proof (cases "select_first (\<lambda>c. centro_treinamento_model.nome c =
            centro_treinamento_atleta.nome (atleta_in.centro_treinamento a))
       (centros_treinamento (working s))")
    case None
    from post_no_centro [OF cat None, of u t f] assms show ?thesis by simp
  next
    case (Some jc)
    obtain j ct where jc: "jc = (j, ct)" by (cases jc)
    note ct = Some [unfolded jc]
    show ?thesis
    proof (cases "commit f (add (new_atleta_model
        (atleta_in.extend a \<lparr>atleta_out.id' = u, atleta_out.created_at = t\<rparr>) c ct) s)")
      case (Inl e)
      from post_commit_fails [OF cat ct Inl] assms show ?thesis
        by (cases e) simp_all
    next
      case (Inr s')
      from post_resolved [OF cat ct, of u t f] Inr assms have "s' = s1" by simp
      with cat ct Inr show ?thesis by blast
    qed
  qed
qed

lemma set_cpfs:
  "v \<in> set (List.map_filter atleta_model.cpf rows) \<longleftrightarrow>
     (\<exists>x\<in>set rows. atleta_model.cpf x = Some v)"
proof (induction rows)
  case Nil
  show ?case by (simp add: map_filter_simps)
next
  case (Cons y ys)
  then show ?case
    by (cases "atleta_model.cpf y") (auto simp: map_filter_simps)
qed

lemma cpf_unique_Cons:
  "cpf_unique (y # ys) \<longleftrightarrow>
     (case atleta_model.cpf y of
        None \<Rightarrow> True
      | Some v \<Rightarrow> (\<forall>x\<in>set ys. atleta_model.cpf x \<noteq> Some v)) \<and>
     cpf_unique ys"
  by (cases "atleta_model.cpf y") (simp_all add: cpf_unique_def map_filter_simps set_cpfs)

lemma cpf_count_one:
  "cpf_unique rows \<Longrightarrow> x \<in> set rows \<Longrightarrow> atleta_model.cpf x = Some v \<Longrightarrow>
     length (filter (\<lambda>y. atleta_model.cpf y = Some v) rows) = 1"
proof (induction rows)
  case Nil
  then show ?case by simp
next
  case (Cons y ys)
  from Cons.prems(1) have tail: "cpf_unique ys"
    by (simp add: cpf_unique_Cons)
  show ?case
  proof (cases "atleta_model.cpf y = Some v")
    case True
    with Cons.prems(1) have "\<forall>x\<in>set ys. atleta_model.cpf x \<noteq> Some v"
      by (simp add: cpf_unique_Cons)
    then have "filter (\<lambda>y. atleta_model.cpf y = Some v) ys = []"
      by (auto simp: filter_empty_conv)
    with True show ?thesis by simp
  next
    case False
    with Cons.prems have "x \<in> set ys" by auto
    from Cons.IH [OF tail this Cons.prems(3)] False show ?thesis by simp
  qed
qed

lemma cpf_unique_append_dup:
  "x \<in> set rows \<Longrightarrow> atleta_model.cpf x = Some v \<Longrightarrow> atleta_model.cpf y = Some v \<Longrightarrow>
     \<not> cpf_unique (rows @ [y])"
proof (induction rows)
  case Nil
  then show ?case by simp
next
  case (Cons z zs)
  show ?case
  proof (cases "x = z")
    case True
    with Cons.prems show ?thesis
      by (simp add: cpf_unique_Cons)
  next
    case False
    with Cons.prems have "x \<in> set zs" by simp
    from Cons.IH [OF this Cons.prems(2,3)] show ?thesis
      by (simp add: cpf_unique_Cons)
  qed
qed

lemma post_outcomes:
  "(\<exists>d. post u t f a s = (HTTPException 400 d, s)) \<or>
   (\<exists>i c j ct.
     select_first (\<lambda>c. categoria_model.nome c = categoria_in.nome (atleta_in.categoria a))
       (categorias (working s)) = Some (i, c) \<and>
     select_first (\<lambda>c. centro_treinamento_model.nome c =
            centro_treinamento_atleta.nome (atleta_in.centro_treinamento a))
       (centros_treinamento (working s)) = Some (j, ct))"
proof (cases "select_first (\<lambda>c. categoria_model.nome c = categoria_in.nome (atleta_in.categoria a))
       (categorias (working s))")
  case None
  from post_no_categoria [OF None, of u t f] show ?thesis by blast
next
  case (Some ic)
  obtain i c where ic: "ic = (i, c)" by (cases ic)
  note cat = Some [unfolded ic]
  show ?thesis
  proof (cases "select_first (\<lambda>c. centro_treinamento_model.nome c =
            centro_treinamento_atleta.nome (atleta_in.centro_treinamento a))
       (centros_treinamento (working s))")
    case None
    from post_no_centro [OF cat None, of u t f] show ?thesis by blast
  next
    case (Some jc)
    obtain j ct where jc: "jc = (j, ct)" by (cases jc)
    from cat Some [unfolded jc] show ?thesis by blast
  qed
qed

lemma suffix_cpf_ja_cadastrado: "suffix v (cpf_ja_cadastrado v)"
  unfolding cpf_ja_cadastrado_def by (rule suffixI) simp

lemma ex_post_first:
  "post 1 1000 None (ex_input ''Ana'' ''111'' ''Scale'' ''CT King'') (ex_session []) =
     (Response 201
        (atleta_in.extend (ex_input ''Ana'' ''111'' ''Scale'' ''CT King'')
           \<lparr>atleta_out.id' = 1, atleta_out.created_at = 1000\<rparr>),
      ex_session [ex_row 1 ''Ana'' ''111''])"
proof -
  let ?a = "ex_input ''Ana'' ''111'' ''Scale'' ''CT King''"
  have cat: "select_first (\<lambda>c. categoria_model.nome c = categoria_in.nome (atleta_in.categoria ?a))
      (categorias (working (ex_session []))) = Some (0, ex_categoria)"
    by (simp add: ex_defs)
  have ct: "select_first (\<lambda>c. centro_treinamento_model.nome c =
            centro_treinamento_atleta.nome (atleta_in.centro_treinamento ?a))
      (centros_treinamento (working (ex_session []))) = Some (0, ex_centro)"
    by (simp add: ex_defs)
  have ok: "commit None (add (new_atleta_model
        (atleta_in.extend ?a \<lparr>atleta_out.id' = 1, atleta_out.created_at = 1000\<rparr>)
        ex_categoria ex_centro) (ex_session [])) = Inr (ex_session [ex_row 1 ''Ana'' ''111''])"
    by (simp add: commit_def add_def new_atleta_model_def cpf_unique_def map_filter_simps
        atleta_in.defs ex_defs)
  from post_resolved [OF cat ct, of 1 1000 None] ok show ?thesis by simp
qed

lemma ex_resolved:
  "select_first (\<lambda>c. categoria_model.nome c =
       categoria_in.nome (atleta_in.categoria (ex_input n v ''Scale'' ''CT King'')))
     (categorias (working (ex_session rows))) = Some (0, ex_categoria)"
  "select_first (\<lambda>c. centro_treinamento_model.nome c =
       centro_treinamento_atleta.nome (atleta_in.centro_treinamento (ex_input n v ''Scale'' ''CT King'')))
     (centros_treinamento (working (ex_session rows))) = Some (0, ex_centro)"
  by (simp_all add: ex_defs)

lemma ex_session_clean: "(ex_session rows)\<lparr>working := stored (ex_session rows)\<rparr> = ex_session rows"
  by (simp add: ex_session_def)

lemma suffix_erro_ao_inserir: "suffix m (erro_ao_inserir m)"
  unfolding erro_ao_inserir_def by (rule suffixI) simp








lemma delete_found:
  assumes found: "select_first (\<lambda>a. atleta_model.id' a = uid) (atletas (working s)) = Some (i, atleta)"
  shows "delete f uid s =
     (case commit f (s\<lparr>working := (working s)\<lparr>atletas :=
             take i (atletas (working s)) @ drop (Suc i) (atletas (working s))\<rparr>\<rparr>) of
        Inl e \<Rightarrow> (Unhandled e, s\<lparr>working := (working s)\<lparr>atletas :=
             take i (atletas (working s)) @ drop (Suc i) (atletas (working s))\<rparr>\<rparr>)
      | Inr committed \<Rightarrow> (Response 204 (), committed))"
  unfolding delete_def Let_def using found by simp

lemma get_missing:
  assumes "\<forall>a\<in>set (atletas (working s)). atleta_model.id' a \<noteq> uid"
  shows "get uid s = (HTTPException 404 (atleta_nao_encontrado uid), s)"
proof -
  from assms have "select_first (\<lambda>a. atleta_model.id' a = uid) (atletas (working s)) = None"
    by (simp add: select_first_None)
  then show ?thesis unfolding get_def by simp
qed

lemma distinct_map_remove_nth:
  assumes d: "distinct (map f xs)" and i: "i < length xs"
  shows "\<forall>a\<in>set (take i xs @ drop (Suc i) xs). f a \<noteq> f (xs ! i)"
proof -
  from i have "xs = take i xs @ xs ! i # drop (Suc i) xs"
    by (rule id_take_nth_drop)
  then have "map f xs = map f (take i xs) @ f (xs ! i) # map f (drop (Suc i) xs)"
    by (metis list.simps(9) map_append)
  with d have "distinct (map f (take i xs) @ f (xs ! i) # map f (drop (Suc i) xs))"
    by simp
  then have notin: "f (xs ! i) \<notin> f ` set (take i xs @ drop (Suc i) xs)"
    by (simp add: image_Un)
  show ?thesis
  proof (intro ballI notI)
    fix a
    assume "a \<in> set (take i xs @ drop (Suc i) xs)" and eq: "f a = f (xs ! i)"
    then have "f a \<in> f ` set (take i xs @ drop (Suc i) xs)"
      by (intro imageI)
    with eq notin show False by simp
  qed
qed

lemma map_filter_app:
  "List.map_filter f (xs @ ys) = List.map_filter f xs @ List.map_filter f ys"
  by (simp add: map_filter_def)

lemma distinct_map_filter_remove_nth:
  assumes "distinct (List.map_filter f xs)"
  shows "distinct (List.map_filter f (take i xs @ drop (Suc i) xs))"
proof (cases "i < length xs")
  case True
  then have "xs = take i xs @ xs ! i # drop (Suc i) xs"
    by (rule id_take_nth_drop)
  then have "List.map_filter f xs =
      List.map_filter f (take i xs) @ List.map_filter f [xs ! i] @
      List.map_filter f (drop (Suc i) xs)"
    by (metis append_Cons append_Nil map_filter_app)
  with assms have "distinct (List.map_filter f (take i xs) @ List.map_filter f [xs ! i] @
      List.map_filter f (drop (Suc i) xs))"
    by simp
  then have "distinct (List.map_filter f (take i xs) @ List.map_filter f (drop (Suc i) xs))"
    by auto
  then show ?thesis by (simp add: map_filter_app)
next
  case False
  with assms show ?thesis by simp
qed

lemma cpf_unique_remove:
  "cpf_unique rows \<Longrightarrow> cpf_unique (take i rows @ drop (Suc i) rows)"
  unfolding cpf_unique_def by (rule distinct_map_filter_remove_nth)









lemma query_eq:
  "query model_validate p nf cf s =
     paginate p (map model_validate (filter (query_stmt nf cf) (atletas (working s))))"
  by (simp add: query_def Let_def)





subsection \<open>The claims\<close>

text \<open>
  C1: when the references resolve and the commit finds the CPF-uniqueness invariant
  violated by the new row, the create operation rolls the transaction back and fails
  with status 409 and a message that ends with the request's CPF. After a create that
  succeeded with 201, any create with the same CPF fails and leaves the session as it
  was, so exactly one committed row has that CPF; when its references resolve and the
  environment raises nothing, it fails with 409.
\<close>

theorem post_duplicate_cpf:
  "(select_first (\<lambda>c. categoria_model.nome c = categoria_in.nome (atleta_in.categoria a))
       (categorias (working s)) = Some (i, c) \<and>
    select_first (\<lambda>c. centro_treinamento_model.nome c =
            centro_treinamento_atleta.nome (atleta_in.centro_treinamento a))
       (centros_treinamento (working s)) = Some (j, ct) \<and>
    f = None \<and>
    \<not> cpf_unique (atletas (working s) @
        [new_atleta_model
           (atleta_in.extend a \<lparr>atleta_out.id' = u, atleta_out.created_at = t\<rparr>) c ct])
    \<longrightarrow>
      post u t f a s =
        (HTTPException 409 (cpf_ja_cadastrado (atleta_in.cpf a)), s\<lparr>working := stored s\<rparr>)
      \<and> suffix (atleta_in.cpf a) (cpf_ja_cadastrado (atleta_in.cpf a)))
   \<and>
   (post u1 t1 f1 a1 s0 = (Response 201 out1, s1) \<and>
    atleta_in.cpf a2 = atleta_in.cpf a1 \<and>
    post u2 t2 f2 a2 s1 = (r, s2)
    \<longrightarrow>
      (\<exists>code detail. r = HTTPException code detail)
      \<and> s2 = s1
      \<and> length (filter (\<lambda>x. atleta_model.cpf x = Some (atleta_in.cpf a1))
           (atletas (stored s2))) = 1
      \<and> ((\<exists>c\<in>set (categorias (working s1)).
             categoria_model.nome c = categoria_in.nome (atleta_in.categoria a2)) \<and>
          (\<exists>c\<in>set (centros_treinamento (working s1)).
             centro_treinamento_model.nome c =
               centro_treinamento_atleta.nome (atleta_in.centro_treinamento a2)) \<and>
          f2 = None
          \<longrightarrow> r = HTTPException 409 (cpf_ja_cadastrado (atleta_in.cpf a1))))"
proof (rule conjI; rule impI; elim conjE)
  assume cat: "select_first (\<lambda>c. categoria_model.nome c = categoria_in.nome (atleta_in.categoria a))
       (categorias (working s)) = Some (i, c)"
    and ct: "select_first (\<lambda>c. centro_treinamento_model.nome c =
            centro_treinamento_atleta.nome (atleta_in.centro_treinamento a))
       (centros_treinamento (working s)) = Some (j, ct)"
    and f: "f = None"
    and dup: "\<not> cpf_unique (atletas (working s) @
        [new_atleta_model
           (atleta_in.extend a \<lparr>atleta_out.id' = u, atleta_out.created_at = t\<rparr>) c ct])"
  let ?row = "new_atleta_model
           (atleta_in.extend a \<lparr>atleta_out.id' = u, atleta_out.created_at = t\<rparr>) c ct"
  from dup have "\<not> cpf_unique (atletas (working (add ?row s)))"
    by (simp add: add_def)
  from commit_not_unique [OF this, of f] f
  have "commit f (add ?row s) = Inl (IntegrityError Unique_cpf)" by simp
  from post_commit_fails [OF cat ct this]
  have "post u t f a s =
        (HTTPException 409 (cpf_ja_cadastrado (atleta_in.cpf a)), s\<lparr>working := stored s\<rparr>)"
    by simp
  then show "post u t f a s =
        (HTTPException 409 (cpf_ja_cadastrado (atleta_in.cpf a)), s\<lparr>working := stored s\<rparr>)
      \<and> suffix (atleta_in.cpf a) (cpf_ja_cadastrado (atleta_in.cpf a))"
    using suffix_cpf_ja_cadastrado by simp
next
  assume first: "post u1 t1 f1 a1 s0 = (Response 201 out1, s1)"
    and same: "atleta_in.cpf a2 = atleta_in.cpf a1"
    and second: "post u2 t2 f2 a2 s1 = (r, s2)"
  from post_Response_inv [OF first] obtain i1 c1 j1 ct1 where
    ok: "commit f1 (add (new_atleta_model
        (atleta_in.extend a1 \<lparr>atleta_out.id' = u1, atleta_out.created_at = t1\<rparr>) c1 ct1) s0) = Inr s1"
    by blast
  let ?row1 = "new_atleta_model
        (atleta_in.extend a1 \<lparr>atleta_out.id' = u1, atleta_out.created_at = t1\<rparr>) c1 ct1"
  from commit_Inr [OF ok]
  have uniq: "cpf_unique (atletas (working s0) @ [?row1])"
    and s1: "s1 = (add ?row1 s0)\<lparr>stored := working (add ?row1 s0)\<rparr>"
    by (simp_all add: add_def)
  have clean: "s1\<lparr>working := stored s1\<rparr> = s1"
    unfolding s1 by simp
  have rows1: "atletas (working s1) = atletas (working s0) @ [?row1]"
    "atletas (stored s1) = atletas (working s0) @ [?row1]"
    unfolding s1 by (simp_all add: add_def)
  have cpf1: "atleta_model.cpf ?row1 = Some (atleta_in.cpf a1)"
    by (simp add: new_atleta_model_def atleta_in.defs)
  have one: "length (filter (\<lambda>x. atleta_model.cpf x = Some (atleta_in.cpf a1))
           (atletas (stored s1))) = 1"
    unfolding rows1 by (rule cpf_count_one [OF uniq _ cpf1]) simp
  have fails: "(\<exists>code detail. r = HTTPException code detail) \<and> s2 = s1 \<and>
     ((\<exists>c\<in>set (categorias (working s1)).
             categoria_model.nome c = categoria_in.nome (atleta_in.categoria a2)) \<and>
          (\<exists>c\<in>set (centros_treinamento (working s1)).
             centro_treinamento_model.nome c =
               centro_treinamento_atleta.nome (atleta_in.centro_treinamento a2)) \<and>
          f2 = None
          \<longrightarrow> r = HTTPException 409 (cpf_ja_cadastrado (atleta_in.cpf a1)))"
    using post_outcomes [of u2 t2 f2 a2 s1]
  proof (elim disjE exE conjE)
    fix d
    assume bad: "post u2 t2 f2 a2 s1 = (HTTPException 400 d, s1)"
    with second have r: "r = HTTPException 400 d" and s2: "s2 = s1" by simp_all
    have "\<not> ((\<exists>c\<in>set (categorias (working s1)).
             categoria_model.nome c = categoria_in.nome (atleta_in.categoria a2)) \<and>
          (\<exists>c\<in>set (centros_treinamento (working s1)).
             centro_treinamento_model.nome c =
               centro_treinamento_atleta.nome (atleta_in.centro_treinamento a2)))"
    proof
      assume "(\<exists>c\<in>set (categorias (working s1)).
             categoria_model.nome c = categoria_in.nome (atleta_in.categoria a2)) \<and>
          (\<exists>c\<in>set (centros_treinamento (working s1)).
             centro_treinamento_model.nome c =
               centro_treinamento_atleta.nome (atleta_in.centro_treinamento a2))"
      then have "\<exists>i c. select_first (\<lambda>c. categoria_model.nome c = categoria_in.nome (atleta_in.categoria a2))
          (categorias (working s1)) = Some (i, c)"
        and "\<exists>j ct. select_first (\<lambda>c. centro_treinamento_model.nome c =
            centro_treinamento_atleta.nome (atleta_in.centro_treinamento a2))
          (centros_treinamento (working s1)) = Some (j, ct)"
        by (simp_all add: select_first_exists)
      then obtain i c j ct where
        cat: "select_first (\<lambda>c. categoria_model.nome c = categoria_in.nome (atleta_in.categoria a2))
          (categorias (working s1)) = Some (i, c)"
        and ct: "select_first (\<lambda>c. centro_treinamento_model.nome c =
            centro_treinamento_atleta.nome (atleta_in.centro_treinamento a2))
          (centros_treinamento (working s1)) = Some (j, ct)"
        by blast
      from post_resolved [OF cat ct, of u2 t2 f2] bad show False
        by (simp split: sum.splits exn.splits)
    qed
    with r s2 show ?thesis by blast
  next
    fix i c j ct
    assume cat: "select_first (\<lambda>c. categoria_model.nome c = categoria_in.nome (atleta_in.categoria a2))
          (categorias (working s1)) = Some (i, c)"
      and ct: "select_first (\<lambda>c. centro_treinamento_model.nome c =
            centro_treinamento_atleta.nome (atleta_in.centro_treinamento a2))
          (centros_treinamento (working s1)) = Some (j, ct)"
    let ?row2 = "new_atleta_model
        (atleta_in.extend a2 \<lparr>atleta_out.id' = u2, atleta_out.created_at = t2\<rparr>) c ct"
    have cpf2: "atleta_model.cpf ?row2 = Some (atleta_in.cpf a1)"
      using same by (simp add: new_atleta_model_def atleta_in.defs)
    have "\<not> cpf_unique (atletas (working s1) @ [?row2])"
      unfolding rows1 by (rule cpf_unique_append_dup [OF _ cpf1 cpf2]) simp
    then have "\<not> cpf_unique (atletas (working (add ?row2 s1)))"
      by (simp add: add_def)
    from commit_not_unique [OF this, of f2]
    have bad: "commit f2 (add ?row2 s1) =
        Inl (case f2 of None \<Rightarrow> IntegrityError Unique_cpf | Some e \<Rightarrow> e)" .
    from post_commit_fails [OF cat ct bad] second clean same
    show ?thesis
      by (auto split: exn.splits option.splits)
  qed
  from fails one show "(\<exists>code detail. r = HTTPException code detail)
      \<and> s2 = s1
      \<and> length (filter (\<lambda>x. atleta_model.cpf x = Some (atleta_in.cpf a1))
           (atletas (stored s2))) = 1
      \<and> ((\<exists>c\<in>set (categorias (working s1)).
             categoria_model.nome c = categoria_in.nome (atleta_in.categoria a2)) \<and>
          (\<exists>c\<in>set (centros_treinamento (working s1)).
             centro_treinamento_model.nome c =
               centro_treinamento_atleta.nome (atleta_in.centro_treinamento a2)) \<and>
          f2 = None
          \<longrightarrow> r = HTTPException 409 (cpf_ja_cadastrado (atleta_in.cpf a1)))"
    by simp
qed

theorem post_duplicate_cpf_witness:
  "post 1 1000 None (ex_input ''Ana'' ''111'' ''Scale'' ''CT King'') (ex_session []) =
     (Response 201
        (atleta_in.extend (ex_input ''Ana'' ''111'' ''Scale'' ''CT King'')
           \<lparr>atleta_out.id' = 1, atleta_out.created_at = 1000\<rparr>),
      ex_session [ex_row 1 ''Ana'' ''111''])
   \<and> post 2 2000 None (ex_input ''Bia'' ''111'' ''Scale'' ''CT King'')
       (ex_session [ex_row 1 ''Ana'' ''111'']) =
     (HTTPException 409 (cpf_ja_cadastrado ''111''), ex_session [ex_row 1 ''Ana'' ''111''])
   \<and> length (filter (\<lambda>x. atleta_model.cpf x = Some ''111'')
        (atletas (stored (ex_session [ex_row 1 ''Ana'' ''111''])))) = 1"
proof -
  let ?a1 = "ex_input ''Ana'' ''111'' ''Scale'' ''CT King''"
  let ?a2 = "ex_input ''Bia'' ''111'' ''Scale'' ''CT King''"
  let ?s1 = "ex_session [ex_row 1 ''Ana'' ''111'']"
  have dup: "\<not> cpf_unique (atletas (working ?s1) @
      [new_atleta_model (atleta_in.extend ?a2 \<lparr>atleta_out.id' = 2, atleta_out.created_at = 2000\<rparr>)
         ex_categoria ex_centro])"
    by (simp add: cpf_unique_def map_filter_simps new_atleta_model_def atleta_in.defs ex_defs)
  have cpf2: "atleta_in.cpf ?a2 = ''111''" and same: "atleta_in.cpf ?a2 = atleta_in.cpf ?a1"
    by (simp_all add: ex_input_def)
  from post_duplicate_cpf [where a = ?a2 and s = ?s1 and i = 0 and c = ex_categoria and j = 0
      and ct = ex_centro and f = None and u = 2 and t = 2000, THEN conjunct1]
    ex_resolved [of "''Bia''" "''111''" "[ex_row 1 ''Ana'' ''111'']"] dup
  have "post 2 2000 None ?a2 ?s1 =
      (HTTPException 409 (cpf_ja_cadastrado (atleta_in.cpf ?a2)), ?s1\<lparr>working := stored ?s1\<rparr>)"
    by blast
  then have second: "post 2 2000 None ?a2 ?s1 = (HTTPException 409 (cpf_ja_cadastrado ''111''), ?s1)"
    by (simp only: cpf2 ex_session_clean)
  from post_duplicate_cpf [where ?a1.0 = ?a1 and ?a2.0 = ?a2 and ?s0.0 = "ex_session []"
      and ?s1.0 = ?s1 and ?s2.0 = ?s1 and ?u1.0 = 1 and ?t1.0 = 1000 and ?f1.0 = None
      and ?u2.0 = 2 and ?t2.0 = 2000 and ?f2.0 = None
      and r = "HTTPException 409 (cpf_ja_cadastrado ''111'')", THEN conjunct2]
    ex_post_first same second
  have "length (filter (\<lambda>x. atleta_model.cpf x = Some (atleta_in.cpf ?a1)) (atletas (stored ?s1))) = 1"
    by blast
  then have "length (filter (\<lambda>x. atleta_model.cpf x = Some ''111'') (atletas (stored ?s1))) = 1"
    by (simp add: ex_input_def)
  with ex_post_first second show ?thesis by simp
qed



text \<open>
  C3: when the category and the training centre are found and the commit succeeds,
  the create operation returns, with status 201, the input representation extended by
  the generated identifier and the current timestamp (every input field unchanged);
  the committed table is the previous one with one more row, which carries the same
  identifier, timestamp and data and the internal keys of the category and training
  centre that were found; nothing is left pending.
\<close>

theorem post_created:
  assumes cat: "select_first (\<lambda>c. categoria_model.nome c = categoria_in.nome (atleta_in.categoria a))
      (categorias (working s)) = Some (i, c)"
    and ct: "select_first (\<lambda>c. centro_treinamento_model.nome c =
            centro_treinamento_atleta.nome (atleta_in.centro_treinamento a))
      (centros_treinamento (working s)) = Some (j, ct)"
    and ok: "commit f (add (new_atleta_model
        (atleta_in.extend a \<lparr>atleta_out.id' = u, atleta_out.created_at = t\<rparr>) c ct) s) = Inr s'"
  shows "post u t f a s =
      (Response 201 (atleta_in.extend a \<lparr>atleta_out.id' = u, atleta_out.created_at = t\<rparr>), s')
    \<and> atleta_out.id' (atleta_in.extend a \<lparr>atleta_out.id' = u, atleta_out.created_at = t\<rparr>) = u
    \<and> atleta_out.created_at
        (atleta_in.extend a \<lparr>atleta_out.id' = u, atleta_out.created_at = t\<rparr>) = t
    \<and> atleta_in.truncate
        (atleta_in.extend a \<lparr>atleta_out.id' = u, atleta_out.created_at = t\<rparr>) = a
    \<and> stored s' = (working s)\<lparr>atletas := atletas (working s) @
          [\<lparr>atleta_model.id' = u, atleta_model.created_at = t,
            atleta_model.nome = Some (atleta_in.nome a), atleta_model.cpf = Some (atleta_in.cpf a),
            atleta_model.peso = Some (atleta_in.peso a),
            atleta_model.altura = Some (atleta_in.altura a),
            atleta_model.sexo = Some (atleta_in.sexo a),
            atleta_model.categoria_id = categoria_model.pk_id c,
            atleta_model.centro_treinamento_id = centro_treinamento_model.pk_id ct\<rparr>]\<rparr>
    \<and> working s' = stored s'
    \<and> c \<in> set (categorias (working s))
    \<and> categoria_model.nome c = categoria_in.nome (atleta_in.categoria a)
    \<and> ct \<in> set (centros_treinamento (working s))
    \<and> centro_treinamento_model.nome ct =
        centro_treinamento_atleta.nome (atleta_in.centro_treinamento a)"
proof -
  let ?out = "atleta_in.extend a \<lparr>atleta_out.id' = u, atleta_out.created_at = t\<rparr>"
  have res: "post u t f a s = (Response 201 ?out, s')"
    using post_resolved [OF cat ct, of u t f] ok by simp
  have out: "atleta_out.id' ?out = u" "atleta_out.created_at ?out = t"
    "atleta_in.truncate ?out = a"
    by (simp_all add: atleta_in.defs)
  from commit_Inr [OF ok]
  have s': "s' = (add (new_atleta_model ?out c ct) s)\<lparr>stored := working (add (new_atleta_model ?out c ct) s)\<rparr>"
    by simp
  have st: "stored s' = (working s)\<lparr>atletas := atletas (working s) @
          [\<lparr>atleta_model.id' = u, atleta_model.created_at = t,
            atleta_model.nome = Some (atleta_in.nome a), atleta_model.cpf = Some (atleta_in.cpf a),
            atleta_model.peso = Some (atleta_in.peso a),
            atleta_model.altura = Some (atleta_in.altura a),
            atleta_model.sexo = Some (atleta_in.sexo a),
            atleta_model.categoria_id = categoria_model.pk_id c,
            atleta_model.centro_treinamento_id = centro_treinamento_model.pk_id ct\<rparr>]\<rparr>"
    unfolding s' by (simp add: add_def new_atleta_model_def atleta_in.defs)
  have w: "working s' = stored s'"
    unfolding s' by simp
  from select_first_Some [OF cat]
  have c: "c \<in> set (categorias (working s))"
    "categoria_model.nome c = categoria_in.nome (atleta_in.categoria a)"
    by auto
  from select_first_Some [OF ct]
  have d: "ct \<in> set (centros_treinamento (working s))"
    "centro_treinamento_model.nome ct =
        centro_treinamento_atleta.nome (atleta_in.centro_treinamento a)"
    by auto
  from res out st w c d show ?thesis by simp
qed

theorem post_created_witness:
  "post 1 1000 None (ex_input ''Ana'' ''111'' ''Scale'' ''CT King'') (ex_session []) =
     (Response 201
        (atleta_in.extend (ex_input ''Ana'' ''111'' ''Scale'' ''CT King'')
           \<lparr>atleta_out.id' = 1, atleta_out.created_at = 1000\<rparr>),
      ex_session [ex_row 1 ''Ana'' ''111''])
   \<and> stored (ex_session [ex_row 1 ''Ana'' ''111'']) =
       (working (ex_session []))\<lparr>atletas := [ex_row 1 ''Ana'' ''111'']\<rparr>"
proof -
  let ?a = "ex_input ''Ana'' ''111'' ''Scale'' ''CT King''"
  have cat: "select_first (\<lambda>c. categoria_model.nome c = categoria_in.nome (atleta_in.categoria ?a))
      (categorias (working (ex_session []))) = Some (0, ex_categoria)"
    by (simp add: ex_defs)
  have ct: "select_first (\<lambda>c. centro_treinamento_model.nome c =
            centro_treinamento_atleta.nome (atleta_in.centro_treinamento ?a))
      (centros_treinamento (working (ex_session []))) = Some (0, ex_centro)"
    by (simp add: ex_defs)
  have ok: "commit None (add (new_atleta_model
        (atleta_in.extend ?a \<lparr>atleta_out.id' = 1, atleta_out.created_at = 1000\<rparr>)
        ex_categoria ex_centro) (ex_session [])) = Inr (ex_session [ex_row 1 ''Ana'' ''111''])"
    by (simp add: commit_def add_def new_atleta_model_def cpf_unique_def map_filter_simps
        atleta_in.defs ex_defs)
  from post_created [OF cat ct ok] show ?thesis
    by (simp add: ex_defs)
qed






text \<open>
  C6: for an identifier that matches no athlete row, each of get, patch and delete
  fails with status 404, and the session is returned unchanged.
\<close>

theorem unknown_id_is_404:
  assumes "\<forall>a\<in>set (atletas (working s)). atleta_model.id' a \<noteq> uid"
  shows "get uid s = (HTTPException 404 (atleta_nao_encontrado uid), s)
       \<and> patch f uid atleta_update s = (HTTPException 404 (atleta_nao_encontrado uid), s)
       \<and> delete f uid s = (HTTPException 404 (atleta_nao_encontrado uid), s)"
proof -
  from assms have "select_first (\<lambda>a. atleta_model.id' a = uid) (atletas (working s)) = None"
    by (simp add: select_first_None)
  then show ?thesis
    unfolding get_def patch_def delete_def Let_def by simp
qed

theorem unknown_id_is_404_witness:
  "get 9 (ex_session [ex_row 1 ''Ana'' ''111'']) =
     (HTTPException 404 (atleta_nao_encontrado 9), ex_session [ex_row 1 ''Ana'' ''111''])
   \<and> patch None 9 [Item_peso (Some 80)] (ex_session [ex_row 1 ''Ana'' ''111'']) =
     (HTTPException 404 (atleta_nao_encontrado 9), ex_session [ex_row 1 ''Ana'' ''111''])
   \<and> delete None 9 (ex_session [ex_row 1 ''Ana'' ''111'']) =
     (HTTPException 404 (atleta_nao_encontrado 9), ex_session [ex_row 1 ''Ana'' ''111''])"
  using unknown_id_is_404 [of "ex_session [ex_row 1 ''Ana'' ''111'']" 9 None "[Item_peso (Some 80)]"]
  by (simp add: ex_defs)

text \<open>
  C7: for an existing athlete, when the environment raises nothing and the table
  satisfies its invariants (unique CPFs, unique identifiers), delete returns 204 with no
  content, the committed table is the previous one without the athlete's row, nothing
  is left pending, and a get of the same identifier on the resulting session fails
  with status 404.
\<close>

theorem delete_then_get:
  assumes found: "select_first (\<lambda>a. atleta_model.id' a = uid) (atletas (working s)) = Some (i, atleta)"
    and f: "f = None"
    and cpfs: "cpf_unique (atletas (working s))"
    and ids: "distinct (map atleta_model.id' (atletas (working s)))"
  shows "delete f uid s =
      (Response 204 (),
       s\<lparr>working := (working s)\<lparr>atletas :=
            take i (atletas (working s)) @ drop (Suc i) (atletas (working s))\<rparr>,
         stored := (working s)\<lparr>atletas :=
            take i (atletas (working s)) @ drop (Suc i) (atletas (working s))\<rparr>\<rparr>)
    \<and> atleta \<notin> set (atletas (stored (snd (delete f uid s))))
    \<and> length (atletas (stored (snd (delete f uid s)))) + 1 = length (atletas (working s))
    \<and> get uid (snd (delete f uid s)) =
        (HTTPException 404 (atleta_nao_encontrado uid), snd (delete f uid s))"
proof -
  let ?rows = "atletas (working s)"
  let ?rest = "take i ?rows @ drop (Suc i) ?rows"
  let ?s' = "s\<lparr>working := (working s)\<lparr>atletas := ?rest\<rparr>,
                stored := (working s)\<lparr>atletas := ?rest\<rparr>\<rparr>"
  from select_first_Some [OF found]
  have i: "i < length ?rows" and at: "?rows ! i = atleta" and uid: "atleta_model.id' atleta = uid"
    by simp_all
  from cpf_unique_remove [OF cpfs, of i]
  have "commit f (s\<lparr>working := (working s)\<lparr>atletas := ?rest\<rparr>\<rparr>) = Inr ?s'"
    unfolding f by (simp add: commit_def)
  with delete_found [OF found, of f] have del: "delete f uid s = (Response 204 (), ?s')"
    by simp
  from distinct_map_remove_nth [OF ids i] at uid
  have gone: "\<forall>a\<in>set ?rest. atleta_model.id' a \<noteq> uid"
    by simp
  with uid have notin: "atleta \<notin> set ?rest" by blast
  from i have len: "length ?rest + 1 = length ?rows" by simp
  from gone have "\<forall>a\<in>set (atletas (working ?s')). atleta_model.id' a \<noteq> uid" by simp
  from get_missing [OF this]
  have "get uid ?s' = (HTTPException 404 (atleta_nao_encontrado uid), ?s')" .
  with del notin len show ?thesis by simp
qed

theorem delete_then_get_witness:
  "delete None 2 (ex_session [ex_row 1 ''Ana'' ''111'', ex_row 2 ''Bia'' ''222'']) =
     (Response 204 (), ex_session [ex_row 1 ''Ana'' ''111''])
   \<and> get 2 (ex_session [ex_row 1 ''Ana'' ''111'']) =
     (HTTPException 404 (atleta_nao_encontrado 2), ex_session [ex_row 1 ''Ana'' ''111''])"
proof -
  let ?s = "ex_session [ex_row 1 ''Ana'' ''111'', ex_row 2 ''Bia'' ''222'']"
  have found: "select_first (\<lambda>a. atleta_model.id' a = 2) (atletas (working ?s)) =
      Some (1, ex_row 2 ''Bia'' ''222'')"
    by (simp add: ex_defs)
  have cpfs: "cpf_unique (atletas (working ?s))"
    by (simp add: cpf_unique_def map_filter_simps ex_defs)
  have ids: "distinct (map atleta_model.id' (atletas (working ?s)))"
    by (simp add: ex_defs)
  have s': "?s\<lparr>working := (working ?s)\<lparr>atletas :=
            take 1 (atletas (working ?s)) @ drop (Suc 1) (atletas (working ?s))\<rparr>,
         stored := (working ?s)\<lparr>atletas :=
            take 1 (atletas (working ?s)) @ drop (Suc 1) (atletas (working ?s))\<rparr>\<rparr> =
      ex_session [ex_row 1 ''Ana'' ''111'']"
    by (simp add: ex_session_def ex_database_def)
  note th = delete_then_get [OF found refl cpfs ids, unfolded s']
  from th have d: "delete None 2 ?s = (Response 204 (), ex_session [ex_row 1 ''Ana'' ''111''])"
    by (rule conjunct1)
  from th have "get 2 (snd (delete None 2 ?s)) =
      (HTTPException 404 (atleta_nao_encontrado 2), snd (delete None 2 ?s))"
    by (elim conjE)
  then have "get 2 (ex_session [ex_row 1 ''Ana'' ''111'']) =
      (HTTPException 404 (atleta_nao_encontrado 2), ex_session [ex_row 1 ''Ana'' ''111''])"
    unfolding d by simp
  with d show ?thesis by simp
qed

text \<open>
  C8: when the commit fails with an exception other than \<^verbatim>\<open>IntegrityError\<close>, the
  create operation fails with status 500 and a message that ends with the text of the
  exception; the session it returns has been rolled back: its pending tables and its
  committed tables are the tables committed before the request.
\<close>

theorem post_persistence_error:
  assumes cat: "select_first (\<lambda>c. categoria_model.nome c = categoria_in.nome (atleta_in.categoria a))
      (categorias (working s)) = Some (i, c)"
    and ct: "select_first (\<lambda>c. centro_treinamento_model.nome c =
            centro_treinamento_atleta.nome (atleta_in.centro_treinamento a))
      (centros_treinamento (working s)) = Some (j, ct)"
    and bad: "commit f (add (new_atleta_model
        (atleta_in.extend a \<lparr>atleta_out.id' = u, atleta_out.created_at = t\<rparr>) c ct) s) =
          Inl (OtherException m)"
  shows "post u t f a s =
      (HTTPException 500 (erro_ao_inserir m), s\<lparr>working := stored s\<rparr>)
    \<and> suffix m (erro_ao_inserir m)
    \<and> working (snd (post u t f a s)) = stored s
    \<and> stored (snd (post u t f a s)) = stored s"
  using post_commit_fails [OF cat ct bad] suffix_erro_ao_inserir by simp

theorem post_persistence_error_witness:
  "post 1 1000 (Some (OtherException ''connection is closed''))
       (ex_input ''Ana'' ''111'' ''Scale'' ''CT King'') (ex_session []) =
     (HTTPException 500 (erro_ao_inserir ''connection is closed''), ex_session [])"
proof -
  let ?a = "ex_input ''Ana'' ''111'' ''Scale'' ''CT King''"
  let ?f = "Some (OtherException ''connection is closed'')"
  have bad: "commit ?f (add (new_atleta_model
        (atleta_in.extend ?a \<lparr>atleta_out.id' = 1, atleta_out.created_at = 1000\<rparr>)
        ex_categoria ex_centro) (ex_session [])) = Inl (OtherException ''connection is closed'')"
    by (simp add: commit_def)
  from post_persistence_error [OF ex_resolved bad]
  have "post 1 1000 ?f ?a (ex_session []) =
      (HTTPException 500 (erro_ao_inserir ''connection is closed''),
       (ex_session [])\<lparr>working := stored (ex_session [])\<rparr>)"
    by (rule conjunct1)
  then show ?thesis
    by (simp only: ex_session_clean)
qed

text \<open>
  C9: an empty string as name filter or as CPF filter is the same as no filter; a list
  request with only the CPF filter \<^verbatim>\<open>""\<close> pages over every athlete row.
\<close>

theorem query_empty_filter:
  "query model_validate p nf (Some []) s = query model_validate p nf None s
   \<and> query model_validate p (Some []) cf s = query model_validate p None cf s
   \<and> query model_validate p None (Some []) s =
       paginate p (map model_validate (atletas (working s)))
   \<and> page.total (query model_validate p None (Some []) s) = length (atletas (working s))"
  by (simp add: query_eq query_stmt_def Let_def paginate_def)

theorem query_empty_filter_witness:
  "page.items (query (\<lambda>a. atleta_model.cpf a) ex_params None (Some [])
      (ex_session [ex_row 1 ''Ana'' ''111'', ex_row 2 ''Bia'' ''222''])) = [Some ''111'', Some ''222'']"
proof -
  from query_empty_filter [of "\<lambda>a. atleta_model.cpf a" ex_params None
      "ex_session [ex_row 1 ''Ana'' ''111'', ex_row 2 ''Bia'' ''222'']" None]
  have "query (\<lambda>a. atleta_model.cpf a) ex_params None (Some [])
      (ex_session [ex_row 1 ''Ana'' ''111'', ex_row 2 ''Bia'' ''222'']) =
    paginate ex_params (map (\<lambda>a. atleta_model.cpf a)
      (atletas (working (ex_session [ex_row 1 ''Ana'' ''111'', ex_row 2 ''Bia'' ''222'']))))"
    by blast
  then show ?thesis
    by (simp add: paginate_def ex_defs)
qed

text \<open>
  C10: whichever constraint the \<^verbatim>\<open>IntegrityError\<close> of the commit reports, the create
  operation answers 409 with the message that names the request's CPF, after rolling
  back. The witness is a violation of another constraint on a table in which the CPF is
  new.
\<close>

theorem post_any_integrity_error:
  assumes cat: "select_first (\<lambda>c. categoria_model.nome c = categoria_in.nome (atleta_in.categoria a))
      (categorias (working s)) = Some (i, c)"
    and ct: "select_first (\<lambda>c. centro_treinamento_model.nome c =
            centro_treinamento_atleta.nome (atleta_in.centro_treinamento a))
      (centros_treinamento (working s)) = Some (j, ct)"
    and bad: "commit f (add (new_atleta_model
        (atleta_in.extend a \<lparr>atleta_out.id' = u, atleta_out.created_at = t\<rparr>) c ct) s) =
          Inl (IntegrityError k)"
  shows "post u t f a s =
      (HTTPException 409 (cpf_ja_cadastrado (atleta_in.cpf a)), s\<lparr>working := stored s\<rparr>)
    \<and> suffix (atleta_in.cpf a) (cpf_ja_cadastrado (atleta_in.cpf a))"
  using post_commit_fails [OF cat ct bad] suffix_cpf_ja_cadastrado by simp

theorem post_any_integrity_error_witness:
  "cpf_unique (atletas (working (ex_session [])) @
      [new_atleta_model
         (atleta_in.extend (ex_input ''Ana'' ''111'' ''Scale'' ''CT King'')
            \<lparr>atleta_out.id' = 1, atleta_out.created_at = 1000\<rparr>) ex_categoria ex_centro])
   \<and> post 1 1000 (Some (IntegrityError (Other_constraint ''atletas_categoria_id_fkey'')))
       (ex_input ''Ana'' ''111'' ''Scale'' ''CT King'') (ex_session []) =
     (HTTPException 409 (cpf_ja_cadastrado ''111''), ex_session [])"
proof -
  let ?a = "ex_input ''Ana'' ''111'' ''Scale'' ''CT King''"
  let ?f = "Some (IntegrityError (Other_constraint ''atletas_categoria_id_fkey''))"
  have bad: "commit ?f (add (new_atleta_model
        (atleta_in.extend ?a \<lparr>atleta_out.id' = 1, atleta_out.created_at = 1000\<rparr>)
        ex_categoria ex_centro) (ex_session [])) =
          Inl (IntegrityError (Other_constraint ''atletas_categoria_id_fkey''))"
    by (simp add: commit_def)
  have fresh: "cpf_unique (atletas (working (ex_session [])) @
      [new_atleta_model
         (atleta_in.extend ?a \<lparr>atleta_out.id' = 1, atleta_out.created_at = 1000\<rparr>)
         ex_categoria ex_centro])"
    by (simp add: cpf_unique_def map_filter_simps new_atleta_model_def atleta_in.defs ex_defs)
  have cpf: "atleta_in.cpf ?a = ''111''"
    by (simp add: ex_input_def)
  from post_any_integrity_error [OF ex_resolved bad]
  have "post 1 1000 ?f ?a (ex_session []) =
      (HTTPException 409 (cpf_ja_cadastrado (atleta_in.cpf ?a)),
       (ex_session [])\<lparr>working := stored (ex_session [])\<rparr>)"
    by (rule conjunct1)
  then have "post 1 1000 ?f ?a (ex_session []) =
      (HTTPException 409 (cpf_ja_cadastrado ''111''), ex_session [])"
    by (simp only: cpf ex_session_clean)
  with fresh show ?thesis by simp
qed

end
